theory Spec2Isabelle
  imports Complex_Main
begin

section \<open>Thread safety levels (include/pagmo/threading.hpp)\<close>

text \<open>
  \<^verbatim>\<open>enum class thread_safety { none, basic };\<close>
  \<open>none\<close>: concurrent operations on distinct instances are unsafe;
  \<open>basic\<close>: they are safe.
\<close>

datatype thread_safety = none | basic

section \<open>Exceptions\<close>

text \<open>
  Every \<^verbatim>\<open>throw\<close> of the sources is a value of this type. \<open>Invalid_argument\<close> is
  \<^verbatim>\<open>std::invalid_argument\<close> with the message handed to \<^verbatim>\<open>pagmo_throw\<close>;
  \<open>Assertion_failed\<close> is a failed \<^verbatim>\<open>assert\<close> (with \<^verbatim>\<open>NDEBUG\<close> the C++ past the
  assert has undefined behaviour, so the model stops there); \<open>User_exception\<close> is any
  other exception thrown by user-supplied code. \<open>Thread_safety_violation\<close> and
  \<open>Queue_overflow\<close> are the two errors of the spec's taxonomy (section 7) that
  originate in the island; tests/island.cpp catches the first as
  \<^verbatim>\<open>std::invalid_argument\<close>.
\<close>

datatype error =
    Invalid_argument string
  | Assertion_failed
  | Thread_safety_violation
  | Queue_overflow
  | User_exception string

section \<open>The translate meta-problem (include/pagmo/problems/translate.hpp)\<close>

text \<open>
  \<^verbatim>\<open>vector_double\<close> is \<^verbatim>\<open>std::vector<double>\<close>. The element type is left as a
  type parameter with the two operations the class uses on it, \<^verbatim>\<open>std::plus<double>\<close> and
  \<^verbatim>\<open>std::minus<double>\<close>; nothing below assumes any law of floating-point arithmetic.
\<close>

type_synonym 'a vector_double = "'a list"

text \<open>
  The base class \<^verbatim>\<open>pagmo::problem\<close> (problem.hpp is not among the sources) is taken as a
  parameter: a record of the member functions that \<^verbatim>\<open>translate\<close> calls through
  \<^verbatim>\<open>static_cast<const problem *>(this)\<close>, and of \<^verbatim>\<open>get_thread_safety\<close>, which the
  tests read. Calls that may throw return a sum.
\<close>

record 'a problem =
  problem_get_nx :: nat
  problem_fitness :: "'a vector_double \<Rightarrow> error + 'a vector_double"
  problem_get_bounds :: "'a vector_double \<times> 'a vector_double"
  problem_gradient :: "'a vector_double \<Rightarrow> error + 'a vector_double"
  problem_hessians :: "'a vector_double \<Rightarrow> error + 'a vector_double list"
  problem_get_name :: string
  problem_get_thread_safety :: thread_safety

text \<open>
  \<^verbatim>\<open>class translate : public problem { ...; vector_double m_translation; }\<close>:
  the base-class subobject and the one data member.
\<close>

record 'a translate =
  base_problem :: "'a problem"
  m_translation :: "'a vector_double"

text \<open>\<^verbatim>\<open>std::to_string\<close> of an unsigned size: its decimal digits.\<close>

definition digit_char :: "nat \<Rightarrow> char" where
  "digit_char d = char_of (48 + d)"

function to_string :: "nat \<Rightarrow> string" where
  "to_string n = (if n < 10 then [digit_char n] else to_string (n div 10) @ [digit_char (n mod 10)])"
  by pat_completeness auto
termination
  by (relation "measure (\<lambda>n. n)") auto

declare to_string.simps [simp del]

text \<open>
  Constructor from a user-defined problem and a translation vector (lines 84-93).
  The member initialisers run first: \<^verbatim>\<open>problem(std::forward<T>(p))\<close>, whose exceptions
  propagate (\<open>problem_ctor\<close>, the constructor of the absent base class, is a parameter),
  then \<^verbatim>\<open>m_translation(translation)\<close>. The body compares the length of the vector with
  \<^verbatim>\<open>get_nx()\<close> of the base and throws \<^verbatim>\<open>std::invalid_argument\<close> when they differ.
\<close>

definition translate_ctor ::
  "('u \<Rightarrow> error + 'a problem) \<Rightarrow> 'u \<Rightarrow> 'a vector_double \<Rightarrow> error + 'a translate" where
  "translate_ctor problem_ctor p translation =
     (case problem_ctor p of
        Inl e \<Rightarrow> Inl e
      | Inr prob \<Rightarrow>
          (let t = \<lparr>base_problem = prob, m_translation = translation\<rparr> in
           if length translation \<noteq> problem_get_nx (base_problem t) then
             Inl (Invalid_argument
                   (''Length of shift vector is: '' @ to_string (length translation)
                    @ '' while the problem dimension is: ''
                    @ to_string (problem_get_nx (base_problem t))))
           else Inr t))"

text \<open>
  \<^verbatim>\<open>translate_back\<close> (lines 245-254) and \<^verbatim>\<open>apply_translation\<close> (lines 256-262):
  the assert on the sizes, then \<^verbatim>\<open>std::transform\<close> over \<open>x\<close> and \<open>m_translation\<close> with
  \<^verbatim>\<open>std::minus\<close>, respectively \<^verbatim>\<open>std::plus\<close>.
\<close>

definition translate_back :: "'a::minus translate \<Rightarrow> 'a vector_double \<Rightarrow> error + 'a vector_double" where
  "translate_back t x =
     (if length x \<noteq> length (m_translation t) then Inl Assertion_failed
      else Inr (map2 (-) x (m_translation t)))"

definition apply_translation :: "'a::plus translate \<Rightarrow> 'a vector_double \<Rightarrow> error + 'a vector_double" where
  "apply_translation t x =
     (if length x \<noteq> length (m_translation t) then Inl Assertion_failed
      else Inr (map2 (+) x (m_translation t)))"

text \<open>\<^verbatim>\<open>fitness\<close> (lines 106-110): de-shift \<open>x\<close>, then call the base.\<close>

definition fitness :: "'a::minus translate \<Rightarrow> 'a vector_double \<Rightarrow> error + 'a vector_double" where
  "fitness t x =
     (case translate_back t x of
        Inl e \<Rightarrow> Inl e
      | Inr x_deshifted \<Rightarrow> problem_fitness (base_problem t) x_deshifted)"

text \<open>
  \<^verbatim>\<open>get_bounds\<close> (lines 121-127): the bounds of the base, each translated; the braced
  initialiser evaluates the lower bound first.
\<close>

definition get_bounds :: "'a::plus translate \<Rightarrow> error + ('a vector_double \<times> 'a vector_double)" where
  "get_bounds t =
     (let b_sh = problem_get_bounds (base_problem t) in
      case apply_translation t (fst b_sh) of
        Inl e \<Rightarrow> Inl e
      | Inr lb \<Rightarrow>
          (case apply_translation t (snd b_sh) of
             Inl e \<Rightarrow> Inl e
           | Inr ub \<Rightarrow> Inr (lb, ub)))"

text \<open>\<^verbatim>\<open>gradient\<close> (lines 140-144) and \<^verbatim>\<open>hessians\<close> (lines 157-161).\<close>

definition gradient :: "'a::minus translate \<Rightarrow> 'a vector_double \<Rightarrow> error + 'a vector_double" where
  "gradient t x =
     (case translate_back t x of
        Inl e \<Rightarrow> Inl e
      | Inr x_deshifted \<Rightarrow> problem_gradient (base_problem t) x_deshifted)"

definition hessians :: "'a::minus translate \<Rightarrow> 'a vector_double \<Rightarrow> error + 'a vector_double list" where
  "hessians t x =
     (case translate_back t x of
        Inl e \<Rightarrow> Inl e
      | Inr x_deshifted \<Rightarrow> problem_hessians (base_problem t) x_deshifted)"

text \<open>\<^verbatim>\<open>get_name\<close> (lines 171-174) and \<^verbatim>\<open>get_translation\<close> (lines 197-200).\<close>

definition get_name :: "'a translate \<Rightarrow> string" where
  "get_name t = problem_get_name (base_problem t) @ '' [translated]''"

definition get_translation :: "'a translate \<Rightarrow> 'a vector_double" where
  "get_translation t = m_translation t"

section \<open>The island scheduler\<close>

text \<open>
  Modelled from the spec: pagmo::population (population.hpp is not among the sources).
  The spec's data model: a Problem, an ordered sequence of (decision vector, fitness
  vector, unique id) triples, and a random seed.
\<close>

record 'a population =
  pop_problem :: "'a problem"
  pop_individuals :: "('a vector_double \<times> 'a vector_double \<times> nat) list"
  pop_seed :: nat

text \<open>
  Modelled from the spec: pagmo::algorithm (algorithm.hpp is not among the sources):
  the user-supplied evolution procedure from Population to Population, which as user
  code may throw, its name and its ThreadSafety capability.
\<close>

record 'a algorithm =
  algo_evolve :: "'a population \<Rightarrow> error + 'a population"
  algo_get_name :: string
  algo_get_thread_safety :: thread_safety

text \<open>
  Modelled from the spec: one queued evolution request of pagmo::island (island.hpp is
  not among the sources). A request carries no data: when it runs it reads the
  algorithm and the population the island holds at that moment.
\<close>

datatype task = Evolve_request

text \<open>
  Modelled from the spec: the state of pagmo::island (island.hpp is not among the
  sources), section 4.2: the Algorithm, the Population, the FIFO queue of requests that
  have not run yet, and the error remembered for the next \<open>get()\<close>.
\<close>

record 'a island =
  isl_algorithm :: "'a algorithm"
  isl_population :: "'a population"
  isl_queue :: "task list"
  isl_error :: "error option"

text \<open>
  Modelled from the spec: the island constructor from (algorithm, population)
  (island.hpp is not among the sources): nothing queued, nothing remembered.
\<close>

definition island_ctor :: "'a algorithm \<Rightarrow> 'a population \<Rightarrow> 'a island" where
  "island_ctor algo pop =
     \<lparr>isl_algorithm = algo, isl_population = pop, isl_queue = [], isl_error = None\<rparr>"


text \<open>
  Modelled from the spec: how island remembers an error (island.hpp is not among the
  sources): \<open>get()\<close> raises the first error encountered, so a later one does not
  replace it.
\<close>

definition remember :: "error \<Rightarrow> 'a island \<Rightarrow> 'a island" where
  "remember e s =
     (case isl_error s of
        None \<Rightarrow> s\<lparr>isl_error := Some e\<rparr>
      | Some _ \<Rightarrow> s)"

text \<open>
  Modelled from the spec: the capacity of the island's queue (island.hpp is not among
  the sources): "a fixed capacity (small constant, e.g. 2)".
\<close>

definition queue_capacity :: nat where
  "queue_capacity = 2"

text \<open>
  Modelled from the spec: how island::evolve enqueues one request (island.hpp is not
  among the sources), section 4.2: a request that finds more than the capacity of
  not-yet-started requests in the queue is dropped and an error is remembered;
  otherwise it joins the back of the queue.
\<close>

definition enqueue :: "'a island \<Rightarrow> 'a island" where
  "enqueue s =
     (if length (isl_queue s) > queue_capacity then remember Queue_overflow s
      else s\<lparr>isl_queue := isl_queue s @ [Evolve_request]\<rparr>)"

text \<open>
  Modelled from the spec: the runtime guard around the contained evolve (island.hpp is
  not among the sources), section 4.2, safety policy: if the Algorithm or the Problem
  of the Population declares \<open>none\<close>, the guard raises instead of calling
  \<open>Algorithm::evolve\<close>; types declaring \<open>basic\<close> execute unguarded.
\<close>

definition guarded_evolve :: "'a algorithm \<Rightarrow> 'a population \<Rightarrow> error + 'a population" where
  "guarded_evolve algo pop =
     (if algo_get_thread_safety algo = none
         \<or> problem_get_thread_safety (pop_problem pop) = none
      then Inl Thread_safety_violation
      else algo_evolve algo pop)"

text \<open>
  Modelled from the spec: the body of a queued task (island.hpp is not among the
  sources), sections 4.2 and 7: the guarded evolve runs on the Algorithm and the
  Population the island holds when the task runs, and the Population returned is
  installed. An exception of the task is captured and remembered; the Population
  then stays as it was.
\<close>

definition run_task :: "'a island \<Rightarrow> 'a island" where
  "run_task s =
     (case guarded_evolve (isl_algorithm s) (isl_population s) of
        Inl e \<Rightarrow> remember e s
      | Inr new_pop \<Rightarrow> s\<lparr>isl_population := new_pop\<rparr>)"

text \<open>
  Modelled from the spec: the island's single worker (island.hpp is not among the
  sources), section 5: it takes the request at the front of the queue and runs it,
  one at a time, in submission order. A task runs in one step of the model.
\<close>

definition worker_step :: "'a island \<Rightarrow> 'a island" where
  "worker_step s =
     (case isl_queue s of
        [] \<Rightarrow> s
      | t # q \<Rightarrow> run_task (s\<lparr>isl_queue := q\<rparr>))"

text \<open>
  Modelled from the spec: the worker runs on its own thread (island.hpp is not among
  the sources), section 5; \<open>worker_steps k\<close> is the progress it has made by the time
  the caller does its next operation.
\<close>

primrec worker_steps :: "nat \<Rightarrow> 'a island \<Rightarrow> 'a island" where
  "worker_steps 0 s = s"
| "worker_steps (Suc k) s = worker_steps k (worker_step s)"

text \<open>
  Modelled from the spec: island::evolve (island.hpp is not among the sources),
  section 4.2: \<open>evolve(n)\<close>, with \<open>n = 1\<close> by default, enqueues \<open>n\<close> requests one
  after the other and returns without waiting for any of them. The worker runs
  meanwhile (section 5): \<open>w i\<close> is the number of steps it takes before request \<open>i\<close>
  (counted from 0) is enqueued, so every interleaving of the caller with the worker
  is some \<open>w\<close>.
\<close>

primrec evolve :: "(nat \<Rightarrow> nat) \<Rightarrow> nat \<Rightarrow> 'a island \<Rightarrow> 'a island" where
  "evolve w 0 s = s"
| "evolve w (Suc n) s = enqueue (worker_steps (w n) (evolve w n s))"

text \<open>
  Modelled from the spec: island::busy (island.hpp is not among the sources),
  section 4.2: the worker has at least one task outstanding. Since a task runs in one
  step of the model, an outstanding task is a queued one.
\<close>

definition busy :: "'a island \<Rightarrow> bool" where
  "busy s = (isl_queue s \<noteq> [])"

text \<open>
  Modelled from the spec: the blocking part of island::wait and island::get (island.hpp
  is not among the sources), section 4.2: the caller is held until every queued task
  has run.
\<close>

function drain :: "'a island \<Rightarrow> 'a island" where
  "drain s = (if busy s then drain (worker_step s) else s)"
  by pat_completeness auto
termination
  by (relation "measure (\<lambda>s. length (isl_queue s))")
     (auto simp: busy_def worker_step_def run_task_def remember_def
           split: list.splits sum.splits option.splits)

declare drain.simps [simp del]

text \<open>
  Modelled from the spec: island::get (island.hpp is not among the sources), section
  4.2: it blocks like \<open>wait()\<close>, then raises the remembered error, if any, and clears
  it. The first component of the result is the error raised, \<open>None\<close> when \<open>get()\<close>
  returns normally.
\<close>

definition get :: "'a island \<Rightarrow> error option \<times> 'a island" where
  "get s = (let idle = drain s in (isl_error idle, idle\<lparr>isl_error := None\<rparr>))"

text \<open>
  Modelled from the spec: island::wait (island.hpp is not among the sources), section
  4.2: it blocks until every queued task has run and raises nothing; a remembered
  error stays remembered.
\<close>

definition wait :: "'a island \<Rightarrow> 'a island" where
  "wait s = drain s"

text \<open>
  Modelled from the spec: the ordering guarantee of section 5 (island.hpp is not among
  the sources): \<open>n\<close> tasks in submission order, each on the Population its predecessor
  produced. The result is the first error raised, if any, and the last Population
  installed; a task that raises leaves the Population as it was, so the tasks after it
  raise as it did.
\<close>

primrec tasks_in_order ::
  "nat \<Rightarrow> 'a algorithm \<Rightarrow> 'a population \<Rightarrow> error option \<times> 'a population" where
  "tasks_in_order 0 algo pop = (None, pop)"
| "tasks_in_order (Suc n) algo pop =
     (case guarded_evolve algo pop of
        Inl e \<Rightarrow> (Some e, pop)
      | Inr new_pop \<Rightarrow> tasks_in_order n algo new_pop)"

section \<open>The archipelago\<close>

text \<open>
  Modelled from the spec: pagmo::archipelago (archipelago.hpp is not among the
  sources), section 4.3: an ordered sequence of islands, each with its own Algorithm,
  Population and worker.
\<close>

type_synonym 'a archipelago = "'a island list"

text \<open>
  Modelled from the spec: the archipelago constructors of section 6 (archipelago.hpp
  is not among the sources): one island per population, all with the same algorithm.
  The populations the constructor builds, each with its own seed, are a parameter.
\<close>

definition archipelago_ctor :: "'a algorithm \<Rightarrow> 'a population list \<Rightarrow> 'a archipelago" where
  "archipelago_ctor algo pops = map (island_ctor algo) pops"

text \<open>
  Modelled from the spec: archipelago::evolve (archipelago.hpp is not among the
  sources), section 4.3: \<open>evolve(n)\<close> on every island, independently; \<open>ws i\<close> is the
  schedule of the worker of island \<open>i\<close>.
\<close>

definition archi_evolve :: "(nat \<Rightarrow> nat \<Rightarrow> nat) \<Rightarrow> nat \<Rightarrow> 'a archipelago \<Rightarrow> 'a archipelago" where
  "archi_evolve ws n a = map (\<lambda>(i, s). evolve (ws i) n s) (zip [0..<length a] a)"

text \<open>
  Modelled from the spec: archipelago::wait (archipelago.hpp is not among the sources),
  section 4.3: \<open>wait()\<close> on every island.
\<close>

definition archi_wait :: "'a archipelago \<Rightarrow> 'a archipelago" where
  "archi_wait a = map wait a"

text \<open>
  Modelled from the spec: archipelago::get (archipelago.hpp is not among the sources),
  section 4.3: \<open>get()\<close> on every island, also after one has raised; the error reported
  to the caller is the first one encountered.
\<close>

fun first_raised :: "error option list \<Rightarrow> error option" where
  "first_raised [] = None"
| "first_raised (None # es) = first_raised es"
| "first_raised (Some e # es) = Some e"

definition archi_get :: "'a archipelago \<Rightarrow> error option \<times> 'a archipelago" where
  "archi_get a = (first_raised (map (\<lambda>s. fst (get s)) a), map (\<lambda>s. snd (get s)) a)"

text \<open>
  Modelled from the spec: archipelago::busy (archipelago.hpp is not among the sources),
  section 4.3: true iff any island is busy.
\<close>

definition archi_busy :: "'a archipelago \<Rightarrow> bool" where
  "archi_busy a = list_ex busy a"

section \<open>Example inputs\<close>

text \<open>
  A four-dimensional example problem, with the translation vector and the decision
  vector of tests/translate.cpp (lines 76 and 79).
\<close>

definition example_udp :: "real problem" where
  "example_udp =
     \<lparr>problem_get_nx = 4,
      problem_fitness = (\<lambda>x. if length x = 4 then Inr [sum_list x] else Inl (Invalid_argument ''fitness'')),
      problem_get_bounds = ([1, 1, 1, 1], [5, 5, 5, 5]),
      problem_gradient = (\<lambda>x. if length x = 4 then Inr [1, 1, 1, 1] else Inl (Invalid_argument ''gradient'')),
      problem_hessians = (\<lambda>x. if length x = 4 then Inr [[]] else Inl (Invalid_argument ''hessians'')),
      problem_get_name = ''example'',
      problem_get_thread_safety = basic\<rparr>"

definition example_translation :: "real vector_double" where
  "example_translation = [1/10, - 2/10, 3/10, 4/10]"

text \<open>
  Islands as tests/island.cpp builds them: a population of three individuals; an
  algorithm that returns its population unchanged and declares \<open>none\<close> (\<^verbatim>\<open>algo_01\<close>); an
  algorithm that declares \<open>basic\<close> and changes the population; and an algorithm that
  declares \<open>basic\<close> and throws \<^verbatim>\<open>std::invalid_argument\<close> on a population of fewer than
  five individuals.
\<close>

definition example_population :: "real population" where
  "example_population =
     \<lparr>pop_problem = example_udp,
      pop_individuals = [([1, 1, 1, 1], [4], 0), ([2, 2, 2, 2], [8], 1), ([3, 3, 3, 3], [12], 2)],
      pop_seed = 123\<rparr>"


definition reversing_algorithm :: "real algorithm" where
  "reversing_algorithm =
     \<lparr>algo_evolve = (\<lambda>pop. Inr (pop\<lparr>pop_individuals := rev (pop_individuals pop)\<rparr>)),
      algo_get_name = ''reversing'', algo_get_thread_safety = basic\<rparr>"


section \<open>Construction of translate\<close>

lemma translate_ctor_Inr_D:
  "translate_ctor problem_ctor p v = Inr t \<Longrightarrow>
   \<exists>prob. problem_ctor p = Inr prob \<and> length v = problem_get_nx prob
          \<and> t = \<lparr>base_problem = prob, m_translation = v\<rparr>"
  by (auto simp: translate_ctor_def Let_def split: sum.splits if_splits)

text \<open>
  Claim C7. Let \<open>p\<close> be a user-defined problem from which the base \<^verbatim>\<open>pagmo::problem\<close> is
  built (so that its dimension \<^verbatim>\<open>get_nx()\<close> exists), and \<open>v\<close> a translation vector.
  The constructor throws \<^verbatim>\<open>std::invalid_argument\<close> if and only if the length of \<open>v\<close>
  differs from \<^verbatim>\<open>get_nx()\<close>; it throws nothing else; and when it succeeds,
  \<^verbatim>\<open>get_translation()\<close> of the object built is \<open>v\<close> and its base is that problem.
\<close>

theorem translate_ctor_throws_iff_length_differs:
  assumes "problem_ctor p = Inr prob"
  shows "((\<exists>msg. translate_ctor problem_ctor p v = Inl (Invalid_argument msg))
            \<longleftrightarrow> length v \<noteq> problem_get_nx prob)
       \<and> (isl (translate_ctor problem_ctor p v) \<longleftrightarrow> length v \<noteq> problem_get_nx prob)
       \<and> (length v = problem_get_nx prob \<longrightarrow>
            (\<exists>t. translate_ctor problem_ctor p v = Inr t \<and> get_translation t = v
                 \<and> base_problem t = prob))"
  using assms by (auto simp: translate_ctor_def get_translation_def Let_def)

theorem translate_ctor_throws_iff_length_differs_witness:
  "(Inr :: real problem \<Rightarrow> error + real problem) example_udp = Inr example_udp
   \<and> length [1, 2 :: real] \<noteq> problem_get_nx example_udp
   \<and> (\<exists>msg. translate_ctor Inr example_udp [1, 2] = Inl (Invalid_argument msg))
   \<and> length example_translation = problem_get_nx example_udp
   \<and> (\<exists>t. translate_ctor Inr example_udp example_translation = Inr t
          \<and> get_translation t = example_translation \<and> base_problem t = example_udp)"
  using translate_ctor_throws_iff_length_differs
          [where problem_ctor = Inr and p = example_udp and prob = example_udp and v = "[1, 2]"]
        translate_ctor_throws_iff_length_differs
          [where problem_ctor = Inr and p = example_udp and prob = example_udp
             and v = example_translation]
  by (simp add: example_udp_def example_translation_def)

section \<open>The translated problem forwards to the inner problem\<close>

text \<open>
  Claim C10. Let \<open>t\<close> be the translate object built from the inner problem \<open>p\<close> and the
  translation vector \<open>v\<close> (so the length of \<open>v\<close> is the dimension of the problem), and
  \<open>x\<close> a decision vector of that length. Then \<^verbatim>\<open>fitness\<close>, \<^verbatim>\<open>gradient\<close> and
  \<^verbatim>\<open>hessians\<close> of \<open>t\<close> at \<open>x\<close> are those of the inner problem at the vector whose
  \<open>i\<close>-th component is \<open>x[i] - v[i]\<close>, and \<^verbatim>\<open>get_bounds\<close> returns the lower and the
  upper bounds of the inner problem, each with \<open>v[i]\<close> added to its \<open>i\<close>-th component.
  The bounds of a \<^verbatim>\<open>pagmo::problem\<close> have the length of its dimension (the NOTE at
  lines 124-125 of translate.hpp relies on it).
\<close>

theorem translate_forwards_shifted:
  fixes t :: "'a::{plus,minus} translate"
  assumes "problem_ctor p = Inr prob"
      and "translate_ctor problem_ctor p v = Inr t"
      and "length x = problem_get_nx prob"
      and "length (fst (problem_get_bounds prob)) = problem_get_nx prob"
      and "length (snd (problem_get_bounds prob)) = problem_get_nx prob"
  shows "fitness t x = problem_fitness prob (map2 (-) x v)
       \<and> gradient t x = problem_gradient prob (map2 (-) x v)
       \<and> hessians t x = problem_hessians prob (map2 (-) x v)
       \<and> get_bounds t = Inr (map2 (+) (fst (problem_get_bounds prob)) v,
                             map2 (+) (snd (problem_get_bounds prob)) v)
       \<and> length (map2 (-) x v) = length x
       \<and> (\<forall>i. i < length x \<longrightarrow> map2 (-) x v ! i = x ! i - v ! i)
       \<and> length (map2 (+) (fst (problem_get_bounds prob)) v) = length v
       \<and> length (map2 (+) (snd (problem_get_bounds prob)) v) = length v
       \<and> (\<forall>i. i < length v \<longrightarrow>
             map2 (+) (fst (problem_get_bounds prob)) v ! i
               = fst (problem_get_bounds prob) ! i + v ! i
           \<and> map2 (+) (snd (problem_get_bounds prob)) v ! i
               = snd (problem_get_bounds prob) ! i + v ! i)"
proof -
  from assms(1,2) have t: "t = \<lparr>base_problem = prob, m_translation = v\<rparr>"
    and lv: "length v = problem_get_nx prob"
    using translate_ctor_Inr_D[of problem_ctor p v t] by auto
  show ?thesis
    using assms(3-5) lv
    by (simp add: t fitness_def gradient_def hessians_def get_bounds_def translate_back_def
          apply_translation_def Let_def)
qed

theorem translate_forwards_shifted_witness:
  "translate_ctor Inr example_udp example_translation
     = Inr \<lparr>base_problem = example_udp, m_translation = example_translation\<rparr>
   \<and> length [3, 3, 3, 3 :: real] = problem_get_nx example_udp
   \<and> fitness \<lparr>base_problem = example_udp, m_translation = example_translation\<rparr> [3, 3, 3, 3]
       = problem_fitness example_udp [29/10, 32/10, 27/10, 26/10]
   \<and> fitness \<lparr>base_problem = example_udp, m_translation = example_translation\<rparr> [3, 3, 3, 3]
       = Inr [114/10]
   \<and> get_bounds \<lparr>base_problem = example_udp, m_translation = example_translation\<rparr>
       = Inr ([11/10, 8/10, 13/10, 14/10], [51/10, 48/10, 53/10, 54/10])"
  using translate_forwards_shifted
          [where problem_ctor = Inr and p = example_udp and prob = example_udp
             and v = example_translation and x = "[3, 3, 3, 3]"
             and t = "\<lparr>base_problem = example_udp, m_translation = example_translation\<rparr>"]
  by (simp add: example_udp_def example_translation_def translate_ctor_def)

section \<open>The island's scheduler: what get() returns\<close>

lemma drain_idle: "isl_queue s = [] \<Longrightarrow> drain s = s"
  by (subst drain.simps) (simp add: busy_def)

lemma drain_worker_step: "drain (worker_step s) = drain s"
proof (cases "busy s")
  case True
  then show ?thesis by (subst (2) drain.simps) simp
next
  case False
  then show ?thesis by (simp add: busy_def worker_step_def)
qed



lemma remember_fields:
  "isl_queue (remember e s) = isl_queue s"
  "isl_algorithm (remember e s) = isl_algorithm s"
  "isl_population (remember e s) = isl_population s"
  "isl_error (remember e s) = Some (case isl_error s of None \<Rightarrow> e | Some e0 \<Rightarrow> e0)"
  by (simp_all add: remember_def split: option.splits)

lemma run_task_fields:
  "isl_queue (run_task s) = isl_queue s"
  "isl_algorithm (run_task s) = isl_algorithm s"
  by (simp_all add: run_task_def remember_fields split: sum.splits)

lemma run_task_queue_update:
  "run_task (s\<lparr>isl_queue := q\<rparr>) = (run_task s)\<lparr>isl_queue := q\<rparr>"
  by (simp add: run_task_def remember_def split: sum.splits option.splits)

lemma worker_step_Cons:
  "isl_queue s = t # q \<Longrightarrow> worker_step s = (run_task s)\<lparr>isl_queue := q\<rparr>"
  by (simp add: worker_step_def run_task_queue_update)

lemma length_queue_worker_step:
  "length (isl_queue (worker_step s)) = length (isl_queue s) - 1"
  by (cases "isl_queue s") (simp_all add: worker_step_def run_task_fields)

lemma length_queue_worker_steps:
  "length (isl_queue (worker_steps k s)) = length (isl_queue s) - k"
  by (induction k arbitrary: s) (simp_all add: length_queue_worker_step)





lemma tasks_in_order_failed:
  "guarded_evolve a p = Inl e \<Longrightarrow>
   tasks_in_order n a p = (if n = 0 then None else Some e, p)"
  by (cases n) simp_all



lemma drain_eq:
  "drain s =
     s\<lparr>isl_queue := [],
       isl_population :=
         snd (tasks_in_order (length (isl_queue s)) (isl_algorithm s) (isl_population s)),
       isl_error :=
         (case isl_error s of
            None \<Rightarrow> fst (tasks_in_order (length (isl_queue s)) (isl_algorithm s) (isl_population s))
          | Some e \<Rightarrow> Some e)\<rparr>"
proof (induction s rule: drain.induct)
  case (1 s)
  show ?case
  proof (cases "isl_queue s")
    case Nil
    then show ?thesis by (cases s) (simp add: drain_idle split: option.splits)
  next
    case (Cons t q)
    then have b: "busy s" by (simp add: busy_def)
    have ws: "worker_step s = (run_task s)\<lparr>isl_queue := q\<rparr>"
      using Cons by (rule worker_step_Cons)
    have d: "drain s = drain (worker_step s)" by (simp add: drain_worker_step)
    note ih = "1.IH"[OF b]
    show ?thesis
    proof (cases "guarded_evolve (isl_algorithm s) (isl_population s)")
      case (Inl e)
      have w: "worker_step s = (remember e s)\<lparr>isl_queue := q\<rparr>"
        using Inl by (simp add: ws run_task_def)
      show ?thesis
        unfolding d ih unfolding w using Cons Inl
        by (cases s) (simp add: remember_def tasks_in_order_failed split: option.splits)
    next
      case (Inr p')
      have w: "worker_step s = s\<lparr>isl_population := p', isl_queue := q\<rparr>"
        using Inr by (simp add: ws run_task_def)
      show ?thesis
        unfolding d ih unfolding w using Cons Inr
        by (cases s) (simp split: option.splits)
    qed
  qed
qed




lemma isl_queue_enqueue_not_Nil: "isl_queue (enqueue s) \<noteq> []"
  by (auto simp: enqueue_def remember_fields)




lemma get_eq:
  "get s =
     (case isl_error s of
        None \<Rightarrow> fst (tasks_in_order (length (isl_queue s)) (isl_algorithm s) (isl_population s))
      | Some e \<Rightarrow> Some e,
      s\<lparr>isl_queue := [],
        isl_population :=
          snd (tasks_in_order (length (isl_queue s)) (isl_algorithm s) (isl_population s)),
        isl_error := None\<rparr>)"
  by (simp add: get_def Let_def drain_eq[of s])

text \<open>
  With a worker that keeps up, \<open>evolve(20)\<close> followed by \<open>get()\<close> returns normally, as
  in tests/island.cpp (lines 191-192): no request finds the queue over its capacity.
\<close>

lemma evolve_20_get_returns_normally:
  "fst (get (evolve (\<lambda>i. 1) 20 (island_ctor reversing_algorithm example_population))) = None"
  by code_simp







section \<open>busy()\<close>

lemma busy_worker_steps: "busy (worker_steps k s) \<longleftrightarrow> k < length (isl_queue s)"
proof -
  have "busy (worker_steps k s) \<longleftrightarrow> 0 < length (isl_queue (worker_steps k s))"
    by (simp add: busy_def)
  then show ?thesis
    by (simp add: length_queue_worker_steps)
qed

lemma busy_evolve_Suc: "busy (evolve w (Suc n) s)"
  by (simp add: busy_def isl_queue_enqueue_not_Nil)

lemma not_busy_drain: "\<not> busy (drain s)"
  by (simp add: busy_def drain_eq[of s])

lemma not_busy_get: "\<not> busy (snd (get s))"
  by (simp add: busy_def get_eq[of s])

lemma archi_busy_iff: "archi_busy a \<longleftrightarrow> (\<exists>i<length a. busy (a ! i))"
  by (simp add: archi_busy_def list_ex_iff Bex_def in_set_conv_nth) blast

text \<open>
  Claim C8. For every island: \<open>busy()\<close> is false on the island as constructed, before
  the first \<open>evolve()\<close>; it is true when \<open>evolve()\<close> returns, whatever the worker did
  meanwhile, and stays true for as long as the worker has not run every queued task
  (a task of positive cost is not complete the moment it is queued: \<open>k\<close> worker steps
  complete the call exactly when \<open>k\<close> reaches the length of the queue); it is false
  after \<open>wait()\<close> and after \<open>get()\<close>. For every archipelago: \<open>busy()\<close> is true iff at
  least one of its islands is busy; it is false as constructed, true after \<open>evolve()\<close>
  when there is an island, and false after \<open>wait()\<close> and after \<open>get()\<close>.
\<close>

theorem busy_before_during_after:
  "\<not> busy (island_ctor algo pop)
   \<and> busy (evolve w (Suc n) s)
   \<and> (busy (worker_steps k (evolve w (Suc n) s))
        \<longleftrightarrow> k < length (isl_queue (evolve w (Suc n) s)))
   \<and> \<not> busy (wait s) \<and> \<not> busy (snd (get s))
   \<and> (archi_busy a \<longleftrightarrow> (\<exists>i<length a. busy (a ! i)))
   \<and> \<not> archi_busy (archipelago_ctor algo pops)
   \<and> (a \<noteq> [] \<longrightarrow> archi_busy (archi_evolve ws (Suc n) a))
   \<and> \<not> archi_busy (archi_wait a) \<and> \<not> archi_busy (snd (archi_get a))"
proof -
  have 1: "\<not> busy (island_ctor algo pop)" by (simp add: busy_def island_ctor_def)
  have 7: "\<not> archi_busy (archipelago_ctor algo pops)"
    by (simp add: archi_busy_def archipelago_ctor_def list_ex_iff busy_def island_ctor_def)
  have 8: "a \<noteq> [] \<longrightarrow> archi_busy (archi_evolve ws (Suc n) a)"
  proof
    assume "a \<noteq> []"
    then have "0 < length a" by simp
    then have "busy (archi_evolve ws (Suc n) a ! 0)"
      by (simp add: archi_evolve_def busy_evolve_Suc del: evolve.simps)
    then show "archi_busy (archi_evolve ws (Suc n) a)"
      using \<open>0 < length a\<close> by (auto simp: archi_busy_iff archi_evolve_def)
  qed
  have 9: "\<not> archi_busy (archi_wait a)"
    by (simp add: archi_busy_def archi_wait_def list_ex_iff wait_def not_busy_drain)
  have 10: "\<not> archi_busy (snd (archi_get a))"
    by (simp add: archi_busy_def archi_get_def list_ex_iff not_busy_get)
  show ?thesis
    using 1 7 8 9 10 busy_evolve_Suc[of w n s] busy_worker_steps[of k "evolve w (Suc n) s"]
      not_busy_drain[of s] not_busy_get[of s] archi_busy_iff[of a]
    by (simp add: wait_def del: evolve.simps)
qed


theorem busy_before_during_after_witness:
  "\<not> busy (island_ctor reversing_algorithm example_population)
   \<and> busy (evolve (\<lambda>i. 0) (Suc 0) (island_ctor reversing_algorithm example_population))
   \<and> \<not> busy (wait (evolve (\<lambda>i. 0) (Suc 0) (island_ctor reversing_algorithm example_population)))
   \<and> archipelago_ctor reversing_algorithm [example_population, example_population] \<noteq> []
   \<and> \<not> archi_busy (archipelago_ctor reversing_algorithm [example_population, example_population])
   \<and> archi_busy (archi_evolve (\<lambda>i j. 0) (Suc 0)
         (archipelago_ctor reversing_algorithm [example_population, example_population]))
   \<and> \<not> archi_busy (archi_wait (archi_evolve (\<lambda>i j. 0) (Suc 0)
         (archipelago_ctor reversing_algorithm [example_population, example_population])))"
  using busy_before_during_after
          [where algo = reversing_algorithm and pop = example_population
             and pops = "[example_population, example_population]"
             and w = "\<lambda>i. 0" and n = 0 and k = 0
             and s = "island_ctor reversing_algorithm example_population"
             and ws = "\<lambda>i j. 0"
             and a = "archipelago_ctor reversing_algorithm [example_population, example_population]"]
        busy_before_during_after
          [where algo = reversing_algorithm and pop = example_population
             and pops = "[example_population, example_population]"
             and w = "\<lambda>i. 0" and n = 0 and k = 0
             and s = "evolve (\<lambda>i. 0) (Suc 0) (island_ctor reversing_algorithm example_population)"
             and ws = "\<lambda>i j. 0"
             and a = "archi_evolve (\<lambda>i j. 0) (Suc 0)
                       (archipelago_ctor reversing_algorithm [example_population, example_population])"]
  by (simp add: archipelago_ctor_def del: evolve.simps)

end
